theory Spec2Isabelle
  imports Main "HOL-Library.Word"
begin

unbundle bit_operations_syntax

section \<open>Common types\<close>

type_synonym u8 = "8 word"
type_synonym u32 = "32 word"

text \<open>
  The ways in which a routine of the firmware does not return to its caller.
  \<^item> \<open>EFM_ASSERT_failed\<close>: an \<^verbatim>\<open>EFM_ASSERT\<close> whose condition is false; the
    firmware treats it as a fatal halt.
  \<^item> \<open>Out_of_bounds\<close>: an array of the C program is indexed outside its declared size
    (undefined behaviour in C; the model stops there instead of inventing a result).
  \<^item> \<open>Busy_wait\<close>: a polling loop whose condition no statement of the loop changes
    (\<^verbatim>\<open>while(leuart_busy());\<close>): without an interrupt it does not return.
\<close>

datatype halt = EFM_ASSERT_failed | Out_of_bounds | Busy_wait

section \<open>sleep_routines.c\<close>

definition EM0 :: u32 where "EM0 = 0"
definition EM1 :: u32 where "EM1 = 1"
definition EM2 :: u32 where "EM2 = 2"
definition EM3 :: u32 where "EM3 = 3"
definition EM4 :: u32 where "EM4 = 4"
definition MAX_ENERGY_MODES :: u32 where "MAX_ENERGY_MODES = 5"

text \<open>
  \<^verbatim>\<open>static int lowest_energy_mode[MAX_ENERGY_MODES]\<close>: a list of
  \<open>MAX_ENERGY_MODES\<close> signed counters. The counters are C \<^verbatim>\<open>int\<close>s; the assertion
  of \<open>sleep_block_mode\<close> halts the program as soon as one reaches 5, so they are
  modelled as unbounded integers.
\<close>

type_synonym energy_table = "int list"

definition sleep_open :: energy_table where
  "sleep_open = replicate (unat MAX_ENERGY_MODES) 0"

definition sleep_block_mode :: "u32 \<Rightarrow> energy_table \<Rightarrow> halt + energy_table" where
  "sleep_block_mode EM t =
     (if unat EM < length t then
        (let t' = t[unat EM := t ! unat EM + 1]
         in if t' ! unat EM < 5 then Inr t' else Inl EFM_ASSERT_failed)
      else Inl Out_of_bounds)"

definition sleep_unblock_mode :: "u32 \<Rightarrow> energy_table \<Rightarrow> halt + energy_table" where
  "sleep_unblock_mode EM t =
     (if unat EM < length t then
        (let t' = (if t ! unat EM > 0 then t[unat EM := t ! unat EM - 1] else t)
         in if t' ! unat EM \<ge> 0 then Inr t' else Inl EFM_ASSERT_failed)
      else Inl Out_of_bounds)"

text \<open>The instructions of the energy management unit that \<open>enter_sleep\<close> can issue.\<close>

datatype emu_call = EMU_EnterEM1 | EMU_EnterEM2 | EMU_EnterEM3 | EMU_EnterEM4

text \<open>
  \<open>enter_sleep\<close> changes no variable of the program; its result in the model is the
  instruction it issues, \<open>None\<close> when it issues none.
\<close>

definition enter_sleep :: "energy_table \<Rightarrow> emu_call option" where
  "enter_sleep t =
     (if t ! unat EM0 > 0 then None
      else if t ! unat EM1 > 0 then None
      else if t ! unat EM2 > 0 then Some EMU_EnterEM1
      else if t ! unat EM3 > 0 then Some EMU_EnterEM2
      else Some EMU_EnterEM3)"

text \<open>
  \<^verbatim>\<open>for(uint32_t i; i < MAX_ENERGY_MODES; i++)\<close>: the loop variable is declared
  without an initial value. Its value at loop entry is whatever the register or stack
  slot holds; the model takes it as the argument \<open>i\<close> of the first call.
\<close>

function current_block_energy_mode_loop :: "u32 \<Rightarrow> energy_table \<Rightarrow> u32" where
  "current_block_energy_mode_loop i t =
     (if i < MAX_ENERGY_MODES then
        (if t ! unat i \<noteq> 0 then i else current_block_energy_mode_loop (i + 1) t)
      else MAX_ENERGY_MODES - 1)"
  by pat_completeness auto
termination
proof (relation "measure (\<lambda>(i, t). unat MAX_ENERGY_MODES - unat i)")
  show "wf (measure (\<lambda>(i, t). unat MAX_ENERGY_MODES - unat i))" by simp
next
  fix i :: u32 and t :: energy_table
  assume lt: "i < MAX_ENERGY_MODES"
  then have "unat i < 5" by (simp add: MAX_ENERGY_MODES_def word_less_nat_alt)
  moreover from this have "unat (i + 1) = unat i + 1"
    by (simp add: unat_word_ariths)
  ultimately show "((i + 1, t), (i, t)) \<in> measure (\<lambda>(i, t). unat MAX_ENERGY_MODES - unat i)"
    by (simp add: MAX_ENERGY_MODES_def)
qed

definition current_block_energy_mode :: "u32 \<Rightarrow> energy_table \<Rightarrow> u32" where
  "current_block_energy_mode i_uninit t = current_block_energy_mode_loop i_uninit t"

text \<open>The calls a client can make on the block table, and a run of several of them.\<close>

datatype sleep_call = Block u32 | Unblock u32

fun sleep_step :: "sleep_call \<Rightarrow> energy_table \<Rightarrow> halt + energy_table" where
  "sleep_step (Block EM) t = sleep_block_mode EM t"
| "sleep_step (Unblock EM) t = sleep_unblock_mode EM t"

fun sleep_run :: "sleep_call list \<Rightarrow> energy_table \<Rightarrow> halt + energy_table" where
  "sleep_run [] t = Inr t"
| "sleep_run (c # cs) t =
     (case sleep_step c t of Inl h \<Rightarrow> Inl h | Inr t' \<Rightarrow> sleep_run cs t')"

section \<open>scheduler.c\<close>

text \<open>\<^verbatim>\<open>static unsigned int event_scheduled\<close> is passed explicitly.\<close>

definition add_scheduled_event :: "u32 \<Rightarrow> u32 \<Rightarrow> u32" where
  "add_scheduled_event event event_scheduled = event_scheduled OR event"

definition remove_scheduled_event :: "u32 \<Rightarrow> u32 \<Rightarrow> u32" where
  "remove_scheduled_event event event_scheduled = event_scheduled AND NOT event"

section \<open>The state of the firmware\<close>

subsection \<open>i2c.h\<close>

text \<open>
  \<^verbatim>\<open>enum i2c_defined_states\<close>. The field \<^verbatim>\<open>i2c_sm.state\<close> is a
  \<^verbatim>\<open>uint32_t\<close>, and every \<^verbatim>\<open>switch\<close> on it has a \<^verbatim>\<open>default\<close> branch, so the
  states are kept as numbers.
\<close>

definition handshake :: u32 where "handshake = 0"
definition measure_cmd :: u32 where "measure_cmd = 1"
definition confirm_cmd :: u32 where "confirm_cmd = 2"
definition RX_MS_byte :: u32 where "RX_MS_byte = 3"
definition RX_LS_byte :: u32 where "RX_LS_byte = 4"
definition end_comm :: u32 where "end_comm = 5"

definition I2C_EM_BLOCK :: u32 where "I2C_EM_BLOCK = 2"

text \<open>
  \<^verbatim>\<open>I2C_STATE_MACHINE\<close>. The field \<open>data\<close> holds the contents of the word that the
  pointer \<^verbatim>\<open>i2c_sm.data\<close> refers to; the pointer \<^verbatim>\<open>I2Cn\<close> is left out, the
  registers of the peripheral being part of the state below.
\<close>

record i2c_state_machine =
  state :: u32
  slave_address :: u32
  command :: u32
  data :: u32
  read :: bool
  callback :: u32

text \<open>
  The values the driver writes to the \<^verbatim>\<open>CMD\<close> register, and its writes to the
  peripheral in the order they are made.
\<close>

datatype i2c_cmd = I2C_CMD_START | I2C_CMD_STOP | I2C_CMD_ACK | I2C_CMD_NACK

datatype i2c_write = CMD i2c_cmd | TXDATA u32

text \<open>The interrupt flags that \<open>I2C0_IRQHandler\<close> tests.\<close>

datatype i2c_flag = I2C_IF_ACK | I2C_IF_NACK | I2C_IF_RXDATAV | I2C_IF_MSTOP

subsection \<open>leuart.h\<close>

text \<open>\<^verbatim>\<open>enum tx_leuart_defined_states\<close> and \<^verbatim>\<open>enum rx_leuart_defined_states\<close>.\<close>

definition start :: u32 where "start = 0"
definition TXdata :: u32 where "TXdata = 1"
definition stop :: u32 where "stop = 2"

definition RXstart :: u32 where "RXstart = 0"
definition RXdata :: u32 where "RXdata = 1"
definition decode :: u32 where "decode = 2"

definition LEUART_TX_EM :: u32 where "LEUART_TX_EM = EM3"

text \<open>
  \<^verbatim>\<open>TX_LEUART_STATE_MACHINE\<close> and \<^verbatim>\<open>RX_LEUART_STATE_MACHINE\<close>, without the
  pointer to the peripheral. The arrays \<^verbatim>\<open>char str[64]\<close> are lists of 64 bytes.
\<close>

record tx_leuart_state_machine =
  tx_state :: u32
  tx_busy :: bool
  tx_str :: "u8 list"
  tx_str_len :: u32
  tx_sent_bytes :: u32
  tx_callback :: u32

record rx_leuart_state_machine =
  rx_state :: u32
  rx_str :: "u8 list"
  rx_str_len :: u32
  rx_callback :: u32

text \<open>
  The interrupt sources of the LEUART that the driver uses. \<^verbatim>\<open>LEUART_IEN_TXC\<close> and
  \<^verbatim>\<open>LEUART_IF_TXC\<close> are the same bit of two registers, and so for the others; a
  register of such bits is the set of the sources whose bit is 1.
\<close>

datatype leuart_irq = LEUART_TXBL | LEUART_TXC | LEUART_STARTF | LEUART_RXDATAV | LEUART_SIGF

subsection \<open>ble.h\<close>

definition CSIZE :: nat where "CSIZE = 64"
definition PACKET_HEADER :: nat where "PACKET_HEADER = 1"

text \<open>\<^verbatim>\<open>BLE_CIRCULAR_BUF\<close>; the field \<^verbatim>\<open>size\<close> is named \<open>buf_size\<close>.\<close>

record ble_circular_buf =
  cbuf :: "u8 list"
  size_mask :: u8
  buf_size :: u32
  read_ptr :: u32
  write_ptr :: u32

subsection \<open>The static variables and the registers\<close>

text \<open>
  \<^item> \<open>lowest_energy_mode\<close>, \<open>event_scheduled\<close>: the statics of sleep_routines.c and
    scheduler.c;
  \<^item> \<open>event_log\<close>: the arguments of the calls of \<open>add_scheduled_event\<close> made by the
    drivers, oldest first; it records how often an event is posted, which the mask
    \<open>event_scheduled\<close> cannot tell;
  \<^item> \<open>i2c_sm\<close>, \<open>event\<close>: the statics of i2c.c (\<open>event\<close> is assigned by \<open>i2c_open\<close>
    only, from \<^verbatim>\<open>i2c_setup->event_def\<close>); \<open>i2c_writes\<close>: the writes to the I2C
    peripheral;
  \<^item> \<open>tx_leuart_sm\<close>, \<open>rx_leuart_sm\<close>, \<open>leuart_rx_cb\<close>, \<open>leuart0_tx_done_cb\<close>: the
    statics of leuart.c; \<open>leuart_IEN\<close>: the interrupt enable register of the LEUART;
    \<open>leuart_rxblock\<close>: the receiver's block status, set by the command
    \<^verbatim>\<open>LEUART_CMD_RXBLOCKEN\<close> and cleared by \<^verbatim>\<open>LEUART_CMD_RXBLOCKDIS\<close>;
    \<open>leuart_txdata\<close>: the bytes written to \<^verbatim>\<open>TXDATA\<close>, oldest first;
  \<^item> \<open>ble_cbuf\<close>, \<open>result_str\<close>: the statics of ble.c (\<open>result_str\<close> is
    \<^verbatim>\<open>test_struct.result_str\<close>, an array of \<open>CSIZE\<close> bytes).
\<close>

record mcu =
  lowest_energy_mode :: energy_table
  event_scheduled :: u32
  event_log :: "u32 list"
  i2c_sm :: i2c_state_machine
  event :: u32
  i2c_writes :: "i2c_write list"
  tx_leuart_sm :: tx_leuart_state_machine
  rx_leuart_sm :: rx_leuart_state_machine
  leuart_rx_cb :: u32
  leuart0_tx_done_cb :: u32
  leuart_IEN :: "leuart_irq set"
  leuart_rxblock :: bool
  leuart_txdata :: "u8 list"
  ble_cbuf :: ble_circular_buf
  result_str :: "u8 list"

text \<open>A call of \<open>add_scheduled_event\<close> from a driver, and sequencing of routines that can halt.\<close>

definition post_event :: "u32 \<Rightarrow> mcu \<Rightarrow> mcu" where
  "post_event ev s =
     s\<lparr>event_scheduled := add_scheduled_event ev (event_scheduled s),
       event_log := event_log s @ [ev]\<rparr>"

definition and_then :: "halt + 'a \<Rightarrow> ('a \<Rightarrow> halt + 'b) \<Rightarrow> halt + 'b" where
  "and_then r f = (case r of Inl h \<Rightarrow> Inl h | Inr x \<Rightarrow> f x)"

section \<open>i2c.c\<close>

definition i2c_ack :: "mcu \<Rightarrow> halt + mcu" where
  "i2c_ack s =
     (let sm = i2c_sm s in
      if state sm = handshake then
        Inr (s\<lparr>i2c_sm := sm\<lparr>state := measure_cmd\<rparr>,
               i2c_writes := i2c_writes s @ [TXDATA (command sm)]\<rparr>)
      else if state sm = measure_cmd then
        Inr (s\<lparr>i2c_sm := sm\<lparr>state := confirm_cmd\<rparr>,
               i2c_writes := i2c_writes s @
                 [CMD I2C_CMD_START, TXDATA (push_bit 1 (slave_address sm) OR 1)]\<rparr>)
      else if state sm = confirm_cmd then
        Inr (s\<lparr>i2c_sm := sm\<lparr>state := RX_MS_byte\<rparr>\<rparr>)
      else if state sm = RX_MS_byte then Inr s
      else if state sm = RX_LS_byte then Inl EFM_ASSERT_failed
      else if state sm = end_comm then Inl EFM_ASSERT_failed
      else Inl EFM_ASSERT_failed)"

definition i2c_nack :: "mcu \<Rightarrow> halt + mcu" where
  "i2c_nack s =
     (let sm = i2c_sm s in
      if state sm = handshake then
        Inr (s\<lparr>i2c_writes := i2c_writes s @
                 [CMD I2C_CMD_START, TXDATA (push_bit 1 (slave_address sm) OR 0)]\<rparr>)
      else if state sm = measure_cmd then Inl EFM_ASSERT_failed
      else if state sm = confirm_cmd then
        Inr (s\<lparr>i2c_writes := i2c_writes s @
                 [CMD I2C_CMD_START, TXDATA (push_bit 1 (slave_address sm) OR 1)]\<rparr>)
      else if state sm = RX_MS_byte then Inl EFM_ASSERT_failed
      else if state sm = RX_LS_byte then Inl EFM_ASSERT_failed
      else if state sm = end_comm then Inl EFM_ASSERT_failed
      else Inl EFM_ASSERT_failed)"

text \<open>The argument \<open>rxdata\<close> is the value read from the register \<^verbatim>\<open>RXDATA\<close>.\<close>

definition i2c_rxdatav :: "u32 \<Rightarrow> mcu \<Rightarrow> halt + mcu" where
  "i2c_rxdatav rxdata s =
     (let sm = i2c_sm s in
      if state sm = handshake then Inl EFM_ASSERT_failed
      else if state sm = measure_cmd then Inl EFM_ASSERT_failed
      else if state sm = confirm_cmd then Inl EFM_ASSERT_failed
      else if state sm = RX_MS_byte then
        Inr (s\<lparr>i2c_sm := sm\<lparr>data := data sm OR push_bit 8 rxdata, state := RX_LS_byte\<rparr>,
               i2c_writes := i2c_writes s @ [CMD I2C_CMD_ACK]\<rparr>)
      else if state sm = RX_LS_byte then
        Inr (s\<lparr>i2c_sm := sm\<lparr>data := data sm OR rxdata, state := end_comm\<rparr>,
               i2c_writes := i2c_writes s @ [CMD I2C_CMD_NACK, CMD I2C_CMD_STOP]\<rparr>)
      else if state sm = end_comm then Inl EFM_ASSERT_failed
      else Inl EFM_ASSERT_failed)"

definition i2c_mstop :: "mcu \<Rightarrow> halt + mcu" where
  "i2c_mstop s =
     (let sm = i2c_sm s in
      if state sm = handshake then Inl EFM_ASSERT_failed
      else if state sm = measure_cmd then Inl EFM_ASSERT_failed
      else if state sm = confirm_cmd then Inl EFM_ASSERT_failed
      else if state sm = RX_MS_byte then Inl EFM_ASSERT_failed
      else if state sm = RX_LS_byte then Inl EFM_ASSERT_failed
      else if state sm = end_comm then
        and_then (sleep_unblock_mode I2C_EM_BLOCK (lowest_energy_mode s))
          (\<lambda>t. Inr ((post_event (event s) (s\<lparr>lowest_energy_mode := t\<rparr>))
                       \<lparr>i2c_sm := sm\<lparr>state := handshake\<rparr>\<rparr>))
      else Inl EFM_ASSERT_failed)"

text \<open>
  \<open>i2c_start\<close>. \<open>bus_idle\<close> is the outcome of the test
  \<^verbatim>\<open>(i2c->STATE & _I2C_STATE_MASK) == I2C_STATE_STATE_IDLE\<close> on the peripheral's
  register; \<open>read_data\<close> is the contents, at the time of the call, of the word that the
  pointer argument refers to.
\<close>

definition i2c_start :: "u32 \<Rightarrow> u32 \<Rightarrow> u32 \<Rightarrow> bool \<Rightarrow> u32 \<Rightarrow> mcu \<Rightarrow> halt + mcu" where
  "i2c_start slave_add cmd read_data bus_idle si7021_read_cb s =
     (if \<not> bus_idle then Inl EFM_ASSERT_failed
      else and_then (sleep_block_mode I2C_EM_BLOCK (lowest_energy_mode s))
        (\<lambda>t. Inr (s\<lparr>lowest_energy_mode := t,
                     i2c_sm := \<lparr>state = handshake, slave_address = slave_add, command = cmd,
                                data = read_data, read = False, callback = si7021_read_cb\<rparr>,
                     i2c_writes := i2c_writes s @
                       [CMD I2C_CMD_START, TXDATA (push_bit 1 slave_add OR 0)]\<rparr>)))"

text \<open>
  \<open>I2C0_IRQHandler\<close>. \<open>int_flag\<close> is the set of the flags of \<^verbatim>\<open>I2C0->IF & I2C0->IEN\<close>
  that the handler tests, \<open>rxdata\<close> the value a read of \<^verbatim>\<open>RXDATA\<close> returns.
\<close>

definition I2C0_IRQHandler :: "i2c_flag set \<Rightarrow> u32 \<Rightarrow> mcu \<Rightarrow> halt + mcu" where
  "I2C0_IRQHandler int_flag rxdata s =
     and_then (if I2C_IF_ACK \<in> int_flag then i2c_ack s else Inr s) (\<lambda>s1.
     and_then (if I2C_IF_NACK \<in> int_flag then i2c_nack s1 else Inr s1) (\<lambda>s2.
     and_then (if I2C_IF_RXDATAV \<in> int_flag then i2c_rxdatav rxdata s2 else Inr s2) (\<lambda>s3.
     (if I2C_IF_MSTOP \<in> int_flag then i2c_mstop s3 else Inr s3))))"

text \<open>A sequence of interrupts, each with the flags raised and the contents of \<^verbatim>\<open>RXDATA\<close>.\<close>

fun i2c_interrupts :: "(i2c_flag set \<times> u32) list \<Rightarrow> mcu \<Rightarrow> halt + mcu" where
  "i2c_interrupts [] s = Inr s"
| "i2c_interrupts ((int_flag, rxdata) # rest) s =
     and_then (I2C0_IRQHandler int_flag rxdata s) (i2c_interrupts rest)"

section \<open>leuart.c\<close>

text \<open>
  \<^verbatim>\<open>strlen\<close> of the string that starts at the head of a list of bytes: the number of
  bytes before the first NUL (the list is the memory from the pointer onwards; a list
  without a NUL is read as a string that ends with the list). The result has the type
  \<^verbatim>\<open>size_t\<close>, 32 bits wide on this processor, which no string that fits the address
  space can overflow.
\<close>

definition strlen :: "u8 list \<Rightarrow> nat" where
  "strlen string = length (takeWhile (\<lambda>c. c \<noteq> 0) string)"

definition leuart_busy :: "mcu \<Rightarrow> bool" where
  "leuart_busy s = tx_busy (tx_leuart_sm s)"

text \<open>
  \<open>leuart_txbl\<close>. The byte goes out through \<open>leuart_app_transmit_byte\<close>, whose polling loop
  on the flag TXBL ends at once here, the routine running because that flag is raised.
\<close>

definition leuart_txbl :: "mcu \<Rightarrow> halt + mcu" where
  "leuart_txbl s =
     (let sm = tx_leuart_sm s in
      if tx_state sm = start then Inl EFM_ASSERT_failed
      else if tx_state sm = TXdata then
        (if unat (tx_sent_bytes sm) < length (tx_str sm) then
           (let s1 = s\<lparr>leuart_txdata := leuart_txdata s @ [tx_str sm ! unat (tx_sent_bytes sm)]\<rparr>;
                sm1 = sm\<lparr>tx_sent_bytes := tx_sent_bytes sm + 1\<rparr>
            in if tx_sent_bytes sm1 = tx_str_len sm1 then
                 Inr (s1\<lparr>leuart_IEN := insert LEUART_TXC (leuart_IEN s1 - {LEUART_TXBL}),
                        tx_leuart_sm := sm1\<lparr>tx_state := stop\<rparr>\<rparr>)
               else Inr (s1\<lparr>tx_leuart_sm := sm1\<rparr>))
         else Inl Out_of_bounds)
      else if tx_state sm = stop then Inl EFM_ASSERT_failed
      else Inl EFM_ASSERT_failed)"

definition leuart_txc :: "mcu \<Rightarrow> halt + mcu" where
  "leuart_txc s =
     (let sm = tx_leuart_sm s in
      if tx_state sm = start then Inl EFM_ASSERT_failed
      else if tx_state sm = TXdata then Inl EFM_ASSERT_failed
      else if tx_state sm = stop then
        (let s1 = s\<lparr>leuart_IEN := leuart_IEN s - {LEUART_TXC},
                     tx_leuart_sm := sm\<lparr>tx_busy := False, tx_state := stop\<rparr>\<rparr>;
             s2 = post_event (tx_callback (tx_leuart_sm s1)) s1
         in and_then (sleep_unblock_mode LEUART_TX_EM (lowest_energy_mode s2))
              (\<lambda>t. Inr (s2\<lparr>lowest_energy_mode := t\<rparr>)))
      else Inl EFM_ASSERT_failed)"

text \<open>
  The receive routines. \<open>rxdata\<close> is the byte a read of \<^verbatim>\<open>RXDATA\<close> returns. A store to
  \<^verbatim>\<open>str[str_len]\<close> with \<open>str_len\<close> outside the array is \<open>Out_of_bounds\<close>.
\<close>

definition leuart_startf :: "u8 \<Rightarrow> mcu \<Rightarrow> halt + mcu" where
  "leuart_startf rxdata s =
     (let sm = rx_leuart_sm s in
      if rx_state sm = RXstart then
        (if 0 < length (rx_str sm) then
           Inr (s\<lparr>rx_leuart_sm := sm\<lparr>rx_state := RXdata, rx_str := (rx_str sm)[0 := rxdata],
                                       rx_str_len := 0 + 1\<rparr>,
                  leuart_IEN := insert LEUART_RXDATAV (insert LEUART_SIGF (leuart_IEN s)),
                  leuart_rxblock := False\<rparr>)
         else Inl Out_of_bounds)
      else if rx_state sm = RXdata then Inr (s\<lparr>rx_leuart_sm := sm\<lparr>rx_str_len := 0\<rparr>\<rparr>)
      else if rx_state sm = decode then Inl EFM_ASSERT_failed
      else Inl EFM_ASSERT_failed)"

definition leuart_rxdatav :: "u8 \<Rightarrow> mcu \<Rightarrow> halt + mcu" where
  "leuart_rxdatav rxdata s =
     (let sm = rx_leuart_sm s in
      if rx_state sm = RXstart then Inl EFM_ASSERT_failed
      else if rx_state sm = RXdata then
        (if unat (rx_str_len sm) < length (rx_str sm) then
           Inr (s\<lparr>rx_leuart_sm := sm\<lparr>rx_str := (rx_str sm)[unat (rx_str_len sm) := rxdata],
                                       rx_str_len := rx_str_len sm + 1\<rparr>\<rparr>)
         else Inl Out_of_bounds)
      else if rx_state sm = decode then Inl EFM_ASSERT_failed
      else Inl EFM_ASSERT_failed)"

definition leuart_sigf :: "mcu \<Rightarrow> halt + mcu" where
  "leuart_sigf s =
     (let sm = rx_leuart_sm s in
      if rx_state sm = RXstart then Inl EFM_ASSERT_failed
      else if rx_state sm = RXdata then
        (if unat (rx_str_len sm) < length (rx_str sm) then
           Inr (post_event (leuart_rx_cb s)
                  (s\<lparr>leuart_IEN := leuart_IEN s - {LEUART_SIGF} - {LEUART_RXDATAV},
                     leuart_rxblock := True,
                     rx_leuart_sm := sm\<lparr>rx_str := (rx_str sm)[unat (rx_str_len sm) := 0],
                                          rx_str_len := rx_str_len sm + 1,
                                          rx_state := RXstart\<rparr>\<rparr>))
         else Inl Out_of_bounds)
      else if rx_state sm = decode then Inl EFM_ASSERT_failed
      else Inl EFM_ASSERT_failed)"

text \<open>
  \<open>LEUART0_IRQHandler\<close>. \<open>IF\<close> is the interrupt flag register at entry; the handler
  services the flags of \<^verbatim>\<open>LEUART0->IF & LEUART0->IEN\<close>, read once at entry.
\<close>

definition LEUART0_IRQHandler :: "leuart_irq set \<Rightarrow> u8 \<Rightarrow> mcu \<Rightarrow> halt + mcu" where
  "LEUART0_IRQHandler IF rxdata s =
     (let int_flag = IF \<inter> leuart_IEN s in
      and_then (if LEUART_TXBL \<in> int_flag then leuart_txbl s else Inr s) (\<lambda>s1.
      and_then (if LEUART_TXC \<in> int_flag then leuart_txc s1 else Inr s1) (\<lambda>s2.
      and_then (if LEUART_STARTF \<in> int_flag then leuart_startf rxdata s2 else Inr s2) (\<lambda>s3.
      and_then (if LEUART_RXDATAV \<in> int_flag then leuart_rxdatav rxdata s3 else Inr s3) (\<lambda>s4.
      (if LEUART_SIGF \<in> int_flag then leuart_sigf s4 else Inr s4))))))"

text \<open>
  \<open>leuart_start\<close>. The loop \<^verbatim>\<open>while(leuart_busy());\<close> returns only if the transmitter
  is not busy; \<^verbatim>\<open>strcpy\<close> writes the string and its terminator into \<^verbatim>\<open>str[64]\<close>.
\<close>

definition leuart_start :: "u8 list \<Rightarrow> mcu \<Rightarrow> halt + mcu" where
  "leuart_start string s =
     (if leuart_busy s then Inl Busy_wait
      else
        (let sm = tx_leuart_sm s; n = strlen string in
         if n + 1 > length (tx_str sm) then Inl Out_of_bounds
         else
           and_then (sleep_block_mode LEUART_TX_EM (lowest_energy_mode s))
             (\<lambda>t. Inr (s\<lparr>tx_leuart_sm :=
                            sm\<lparr>tx_str_len := of_nat n, tx_sent_bytes := 0,
                               tx_str := take n string @ [0] @ drop (n + 1) (tx_str sm),
                               tx_busy := True, tx_state := TXdata,
                               tx_callback := leuart0_tx_done_cb s\<rparr>,
                          lowest_energy_mode := t,
                          leuart_IEN := insert LEUART_TXBL (leuart_IEN s)\<rparr>))))"

subsection \<open>Frames on the receive line\<close>

text \<open>
  \<open>leuart_open\<close> programs the start frame \<^verbatim>\<open>'#'\<close> and the signal frame \<^verbatim>\<open>'!'\<close>. A frame
  that arrives is delivered to the handler as its events: the arrival of a byte
  (RXDATAV) for every frame, the start marker (STARTF) for the start frame and the end
  marker (SIGF) for the signal frame, with the frame in \<^verbatim>\<open>RXDATA\<close>. Which of them the
  handler services is decided by \<open>LEUART0_IRQHandler\<close> from the enable register.
\<close>

definition STARTFRAME :: u8 where "STARTFRAME = 0x23"
definition SIGFRAME :: u8 where "SIGFRAME = 0x21"

definition leuart_frame_event :: "u8 \<Rightarrow> leuart_irq set \<times> u8" where
  "leuart_frame_event frame =
     ({LEUART_RXDATAV} \<union> (if frame = STARTFRAME then {LEUART_STARTF} else {}) \<union>
        (if frame = SIGFRAME then {LEUART_SIGF} else {}),
      frame)"

text \<open>A sequence of interrupts of the LEUART, each with the flags raised and \<^verbatim>\<open>RXDATA\<close>.\<close>

fun leuart_interrupts :: "(leuart_irq set \<times> u8) list \<Rightarrow> mcu \<Rightarrow> halt + mcu" where
  "leuart_interrupts [] s = Inr s"
| "leuart_interrupts ((IF, rxdata) # rest) s =
     and_then (LEUART0_IRQHandler IF rxdata s) (leuart_interrupts rest)"

text \<open>The string held in an array of bytes: the bytes before the first NUL.\<close>

definition c_string :: "u8 list \<Rightarrow> u8 list" where
  "c_string bytes = takeWhile (\<lambda>c. c \<noteq> 0) bytes"

section \<open>ble.c\<close>

definition ble_circ_init :: "ble_circular_buf \<Rightarrow> ble_circular_buf" where
  "ble_circ_init b =
     b\<lparr>write_ptr := 0, read_ptr := 0, buf_size := of_nat CSIZE, size_mask := of_nat (CSIZE - 1)\<rparr>"

definition ble_circ_space :: "ble_circular_buf \<Rightarrow> u8" where
  "ble_circ_space b =
     ucast (buf_size b - ((write_ptr b - read_ptr b) AND ucast (size_mask b)))"

definition update_circ_readtindex :: "u32 \<Rightarrow> ble_circular_buf \<Rightarrow> ble_circular_buf" where
  "update_circ_readtindex update_by b =
     b\<lparr>read_ptr := (read_ptr b + update_by) AND ucast (size_mask b)\<rparr>"

definition update_circ_wrtindex :: "u32 \<Rightarrow> ble_circular_buf \<Rightarrow> ble_circular_buf" where
  "update_circ_wrtindex update_by b =
     b\<lparr>write_ptr := (write_ptr b + update_by) AND ucast (size_mask b)\<rparr>"

text \<open>
  The loop of \<open>ble_circ_push\<close>, over the bytes of the string, and the loop of
  \<open>ble_circ_pop\<close>, over the number of bytes to read. Both index \<open>cbuf\<close> with a pointer
  that \<open>ble_circ_init\<close> sets to 0 and that is masked with \<open>size_mask\<close> at every update.
\<close>

fun ble_circ_push_loop :: "u8 list \<Rightarrow> ble_circular_buf \<Rightarrow> ble_circular_buf" where
  "ble_circ_push_loop [] b = b"
| "ble_circ_push_loop (c # cs) b =
     ble_circ_push_loop cs
       (update_circ_wrtindex 1 (b\<lparr>cbuf := (cbuf b)[unat (write_ptr b) := c]\<rparr>))"

fun ble_circ_pop_loop :: "nat \<Rightarrow> ble_circular_buf \<Rightarrow> u8 list \<times> ble_circular_buf" where
  "ble_circ_pop_loop 0 b = ([], b)"
| "ble_circ_pop_loop (Suc n) b =
     (let c = cbuf b ! unat (read_ptr b);
          (cs, b') = ble_circ_pop_loop n (update_circ_readtindex 1 b)
      in (c # cs, b'))"

definition ble_circ_push :: "u8 list \<Rightarrow> mcu \<Rightarrow> halt + mcu" where
  "ble_circ_push string s =
     (let b = ble_cbuf s in
      if strlen string + PACKET_HEADER > unat (ble_circ_space b) then Inl EFM_ASSERT_failed
      else
        (let b1 = b\<lparr>cbuf := (cbuf b)[unat (write_ptr b) := of_nat (strlen string + PACKET_HEADER)]\<rparr>;
             b2 = update_circ_wrtindex (of_nat PACKET_HEADER) b1
         in Inr (s\<lparr>ble_cbuf := ble_circ_push_loop (take (strlen string) string) b2\<rparr>)))"

text \<open>
  \<open>ble_circ_pop\<close> returns \<open>True\<close> for "nothing popped". The array \<^verbatim>\<open>print_str\<close> has
  \<open>header\<close> elements, so a header of 0 leaves no room for the terminator; the test
  branch copies \<open>header\<close> bytes into \<^verbatim>\<open>result_str[CSIZE]\<close>.
\<close>

definition ble_circ_pop :: "bool \<Rightarrow> mcu \<Rightarrow> halt + (bool \<times> mcu)" where
  "ble_circ_pop test s =
     (let b = ble_cbuf s in
      if leuart_busy s \<or> unat (ble_circ_space b) = CSIZE then Inr (True, s)
      else
        (let header = (ucast (cbuf b ! unat (read_ptr b)) :: u32) in
         if header = 0 then Inl Out_of_bounds
         else
           (let b1 = update_circ_readtindex (of_nat PACKET_HEADER) b;
                (bytes, b2) = ble_circ_pop_loop (unat (header - of_nat PACKET_HEADER)) b1;
                print_str = bytes @ [0];
                s1 = s\<lparr>ble_cbuf := b2\<rparr>
            in if test then
                 (if unat header \<le> length (result_str s1) then
                    Inr (False, s1\<lparr>result_str := print_str @ drop (unat header) (result_str s1)\<rparr>)
                  else Inl Out_of_bounds)
               else and_then (leuart_start print_str s1) (\<lambda>s2. Inr (False, s2)))))"

section \<open>States and tables used in the statements\<close>

text \<open>
  The state after reset: every static variable of the program is zero, no interrupt of
  the LEUART is enabled, nothing has been written to a peripheral.
\<close>

definition mcu_reset :: mcu where
  "mcu_reset =
     \<lparr>lowest_energy_mode = replicate (unat MAX_ENERGY_MODES) 0,
      event_scheduled = 0,
      event_log = [],
      i2c_sm = \<lparr>state = 0, slave_address = 0, command = 0, data = 0, read = False, callback = 0\<rparr>,
      event = 0,
      i2c_writes = [],
      tx_leuart_sm = \<lparr>tx_state = 0, tx_busy = False, tx_str = replicate 64 0, tx_str_len = 0,
                      tx_sent_bytes = 0, tx_callback = 0\<rparr>,
      rx_leuart_sm = \<lparr>rx_state = 0, rx_str = replicate 64 0, rx_str_len = 0, rx_callback = 0\<rparr>,
      leuart_rx_cb = 0,
      leuart0_tx_done_cb = 0,
      leuart_IEN = {},
      leuart_rxblock = False,
      leuart_txdata = [],
      ble_cbuf = \<lparr>cbuf = replicate CSIZE 0, size_mask = 0, buf_size = 0, read_ptr = 0,
                  write_ptr = 0\<rparr>,
      result_str = replicate CSIZE 0\<rparr>"

text \<open>
  The transition table of section 4.3 of the specification, read as the set of the legal
  pairs of a state and an interrupt condition: every entry of the table that is not
  "fault".
\<close>

definition spec_4_3_legal :: "u32 \<Rightarrow> i2c_flag \<Rightarrow> bool" where
  "spec_4_3_legal st c =
     (st = handshake \<and> (c = I2C_IF_ACK \<or> c = I2C_IF_NACK) \<or>
      st = measure_cmd \<and> c = I2C_IF_ACK \<or>
      st = confirm_cmd \<and> (c = I2C_IF_ACK \<or> c = I2C_IF_NACK) \<or>
      st = RX_MS_byte \<and> c = I2C_IF_RXDATAV \<or>
      st = RX_LS_byte \<and> c = I2C_IF_RXDATAV \<or>
      st = end_comm \<and> c = I2C_IF_MSTOP)"

text \<open>
  A ring buffer as \<open>ble_circ_init\<close> sets it up and as the index updates keep it: \<open>CSIZE\<close>
  bytes, the size and the mask of \<open>ble_circ_init\<close>, both pointers inside the array.
\<close>

definition cbuf_ok :: "ble_circular_buf \<Rightarrow> bool" where
  "cbuf_ok b =
     (length (cbuf b) = CSIZE \<and> buf_size b = of_nat CSIZE \<and> size_mask b = of_nat (CSIZE - 1) \<and>
      unat (read_ptr b) < CSIZE \<and> unat (write_ptr b) < CSIZE)"

text \<open>Where \<open>ble_circ_pop\<close> delivers the string: the test array or the transmit buffer.\<close>

definition pop_sink :: "bool \<Rightarrow> mcu \<Rightarrow> u8 list" where
  "pop_sink test s = (if test then result_str s else tx_str (tx_leuart_sm s))"

text \<open>The bytes of a string literal of the C sources.\<close>

definition ascii :: "string \<Rightarrow> u8 list" where
  "ascii str = map of_char str"

text \<open>
  A read transaction without a fault, from \<open>i2c_start\<close> to the stop condition: the
  sensor acknowledges the address, the command and the second address, sends the bytes
  \<open>high\<close> and \<open>low\<close>, and the bus stops.
\<close>

definition i2c_read_transaction ::
  "u32 \<Rightarrow> u32 \<Rightarrow> u32 \<Rightarrow> u32 \<Rightarrow> u32 \<Rightarrow> u32 \<Rightarrow> mcu \<Rightarrow> halt + mcu" where
  "i2c_read_transaction slave_add cmd read_data si7021_read_cb high low s =
     and_then (i2c_start slave_add cmd read_data True si7021_read_cb s)
       (i2c_interrupts
          [({I2C_IF_ACK}, 0), ({I2C_IF_ACK}, 0), ({I2C_IF_ACK}, 0),
           ({I2C_IF_RXDATAV}, high), ({I2C_IF_RXDATAV}, low), ({I2C_IF_MSTOP}, 0)])"

section \<open>Power-mode arbiter\<close>

lemma sleep_unblock_mode_nonneg:
  "sleep_unblock_mode EM t = Inr t' \<Longrightarrow> \<forall>i<length t. 0 \<le> t ! i \<Longrightarrow>
   length t' = length t \<and> (\<forall>i<length t'. 0 \<le> t' ! i)"
  by (auto simp: sleep_unblock_mode_def Let_def nth_list_update split: if_splits)

lemma sleep_block_mode_nonneg:
  "sleep_block_mode EM t = Inr t' \<Longrightarrow> \<forall>i<length t. 0 \<le> t ! i \<Longrightarrow>
   length t' = length t \<and> (\<forall>i<length t'. 0 \<le> t' ! i)"
  by (auto simp: sleep_block_mode_def Let_def nth_list_update split: if_splits)

lemma sleep_run_nonneg:
  "sleep_run calls t = Inr t' \<Longrightarrow> \<forall>i<length t. 0 \<le> t ! i \<Longrightarrow>
   length t' = length t \<and> (\<forall>i<length t'. 0 \<le> t' ! i)"
proof (induction calls arbitrary: t)
  case Nil
  then show ?case by simp
next
  case (Cons c calls)
  from Cons.prems(1) obtain t1
    where step: "sleep_step c t = Inr t1" and rest: "sleep_run calls t1 = Inr t'"
    by (auto split: sum.splits)
  have "length t1 = length t \<and> (\<forall>i<length t1. 0 \<le> t1 ! i)"
  proof (cases c)
    case (Block EM)
    with step Cons.prems(2) show ?thesis using sleep_block_mode_nonneg by simp
  next
    case (Unblock EM)
    with step Cons.prems(2) show ?thesis using sleep_unblock_mode_nonneg by simp
  qed
  with Cons.IH [OF rest] show ?case by simp
qed

lemma sleep_open_nonneg: "length sleep_open = 5 \<and> (\<forall>i<length sleep_open. 0 \<le> sleep_open ! i)"
  by (simp add: sleep_open_def MAX_ENERGY_MODES_def)

text \<open>
  With the loop variable at 0 on entry the scan is the one the comment of the function
  describes: the index of the first nonzero counter, and the last index if there is none.
\<close>

lemma current_block_energy_mode_from_0:
  "current_block_energy_mode 0 t =
     (if t ! 0 \<noteq> 0 then 0 else if t ! 1 \<noteq> 0 then 1 else if t ! 2 \<noteq> 0 then 2
      else if t ! 3 \<noteq> 0 then 3 else 4)"
  by (simp add: current_block_energy_mode_def MAX_ENERGY_MODES_def)

text \<open>
  C1. The claim: \<open>current_block_energy_mode\<close> scans from index 0 and returns the index of
  the first level with a nonzero count. The loop variable has no initial value; when it
  holds 1 at loop entry the scan starts at index 1, and on the table \<open>{1, 0, 0, 0, 0}\<close>,
  whose first nonzero level is 0, the function returns \<open>MAX_ENERGY_MODES - 1 = 4\<close>.
\<close>

theorem current_block_energy_mode_uninitialised:
  "current_block_energy_mode 1 [1, 0, 0, 0, 0] = 4"
  by (simp add: current_block_energy_mode_def MAX_ENERGY_MODES_def)

text \<open>
  C9. Every entry of the block table is non-negative after any sequence of calls of
  \<open>sleep_block_mode\<close> and \<open>sleep_unblock_mode\<close> that starts from the table of
  \<open>sleep_open\<close> and runs to its end; \<open>sleep_unblock_mode\<close> decrements the count of a
  level exactly when it is positive, and on a level whose count is 0 it returns with the
  table unchanged.
\<close>

theorem block_counts_never_negative:
  "(sleep_run calls sleep_open = Inr t \<longrightarrow>
      length t = unat MAX_ENERGY_MODES \<and> (\<forall>i<length t. 0 \<le> t ! i)) \<and>
   (sleep_unblock_mode EM t0 = Inr t1 \<longrightarrow>
      t1 = (if 0 < t0 ! unat EM then t0[unat EM := t0 ! unat EM - 1] else t0)) \<and>
   (unat EM < length t0 \<and> 0 < t0 ! unat EM \<longrightarrow>
      sleep_unblock_mode EM t0 = Inr (t0[unat EM := t0 ! unat EM - 1])) \<and>
   (unat EM < length t0 \<and> t0 ! unat EM = 0 \<longrightarrow> sleep_unblock_mode EM t0 = Inr t0)"
proof -
  have reach: "length t = unat MAX_ENERGY_MODES \<and> (\<forall>i<length t. 0 \<le> t ! i)"
    if run: "sleep_run calls sleep_open = Inr t"
    using sleep_run_nonneg [OF run] sleep_open_nonneg by (simp add: MAX_ENERGY_MODES_def)
  have only_positive: "t1 = (if 0 < t0 ! unat EM then t0[unat EM := t0 ! unat EM - 1] else t0)"
    if "sleep_unblock_mode EM t0 = Inr t1"
    using that by (auto simp: sleep_unblock_mode_def Let_def split: if_splits)
  have decrement: "sleep_unblock_mode EM t0 = Inr (t0[unat EM := t0 ! unat EM - 1])"
    if "unat EM < length t0 \<and> 0 < t0 ! unat EM"
    using that by (simp add: sleep_unblock_mode_def Let_def)
  have no_op: "sleep_unblock_mode EM t0 = Inr t0"
    if "unat EM < length t0 \<and> t0 ! unat EM = 0"
    using that by (simp add: sleep_unblock_mode_def Let_def)
  from reach only_positive decrement no_op show ?thesis by blast
qed

theorem block_counts_never_negative_witness:
  "sleep_run [Block EM2, Unblock EM2, Unblock EM2, Block EM3] sleep_open = Inr [0, 0, 0, 1, 0] \<and>
   0 \<le> [0, 0, 0, 1, 0 :: int] ! 2 \<and>
   sleep_unblock_mode EM3 [0, 0, 0, 1, 0] = Inr [0, 0, 0, 0, 0] \<and>
   sleep_unblock_mode EM2 [0, 0, 0, 1, 0] = Inr [0, 0, 0, 1, 0]"
proof -
  note at_EM3 = block_counts_never_negative
    [of "[Block EM2, Unblock EM2, Unblock EM2, Block EM3]" "[0, 0, 0, 1, 0]" EM3 "[0, 0, 0, 1, 0]"]
  note at_EM2 = block_counts_never_negative [of "[]" "[]" EM2 "[0, 0, 0, 1, 0]"]
  have run: "sleep_run [Block EM2, Unblock EM2, Unblock EM2, Block EM3] sleep_open = Inr [0, 0, 0, 1, 0]"
    by code_simp
  have pos: "unat EM3 < length [0, 0, 0, 1, 0 :: int] \<and> 0 < [0, 0, 0, 1, 0 :: int] ! unat EM3"
    by (simp add: EM3_def)
  have zero: "unat EM2 < length [0, 0, 0, 1, 0 :: int] \<and> [0, 0, 0, 1, 0 :: int] ! unat EM2 = 0"
    by (simp add: EM2_def)
  from at_EM3 run have "\<forall>i<length [0, 0, 0, 1, 0 :: int]. 0 \<le> [0, 0, 0, 1, 0 :: int] ! i"
    by blast
  then have nonneg: "0 \<le> [0, 0, 0, 1, 0 :: int] ! 2"
    by simp
  from at_EM3 pos
  have "sleep_unblock_mode EM3 [0, 0, 0, 1, 0] =
          Inr ([0, 0, 0, 1, 0][unat EM3 := [0, 0, 0, 1, 0] ! unat EM3 - 1])"
    by blast
  then have dec: "sleep_unblock_mode EM3 [0, 0, 0, 1, 0] = Inr [0, 0, 0, 0, 0]"
    by (simp add: EM3_def)
  from at_EM2 zero have same: "sleep_unblock_mode EM2 [0, 0, 0, 1, 0] = Inr [0, 0, 0, 1, 0]"
    by blast
  from run nonneg dec same show ?thesis by blast
qed

text \<open>
  C10. \<open>enter_sleep\<close> never enters a mode deeper than EM3. On a table of block counts
  (five entries, none negative): with a nonzero count for EM0 or EM1 it issues no sleep
  instruction; otherwise with EM2 blocked it enters EM1; otherwise with EM3 blocked it
  enters EM2; otherwise it enters EM3. It never enters EM4, whatever the table.
\<close>

theorem enter_sleep_at_most_EM3:
  assumes "length t = unat MAX_ENERGY_MODES" and "\<forall>i<length t. 0 \<le> t ! i"
  shows "enter_sleep t \<noteq> Some EMU_EnterEM4 \<and>
         enter_sleep t =
           (if t ! unat EM0 \<noteq> 0 \<or> t ! unat EM1 \<noteq> 0 then None
            else if t ! unat EM2 \<noteq> 0 then Some EMU_EnterEM1
            else if t ! unat EM3 \<noteq> 0 then Some EMU_EnterEM2
            else Some EMU_EnterEM3)"
proof -
  from assms have "0 \<le> t ! 0" "0 \<le> t ! 1" "0 \<le> t ! 2" "0 \<le> t ! 3"
    by (simp_all add: MAX_ENERGY_MODES_def)
  then have "(0 < t ! 0) = (t ! 0 \<noteq> 0)" "(0 < t ! 1) = (t ! 1 \<noteq> 0)"
    "(0 < t ! 2) = (t ! 2 \<noteq> 0)" "(0 < t ! 3) = (t ! 3 \<noteq> 0)"
    by auto
  then show ?thesis
    by (simp add: enter_sleep_def EM0_def EM1_def EM2_def EM3_def)
qed

theorem enter_sleep_at_most_EM3_witness:
  "enter_sleep [0, 0, 0, 0, 0] = Some EMU_EnterEM3 \<and>
   enter_sleep [0, 0, 0, 2, 0] = Some EMU_EnterEM2 \<and>
   enter_sleep [0, 0, 1, 1, 0] = Some EMU_EnterEM1 \<and>
   enter_sleep [0, 1, 0, 0, 0] = None \<and>
   enter_sleep [0, 0, 0, 0, 3] \<noteq> Some EMU_EnterEM4"
  using enter_sleep_at_most_EM3 [of "[0, 0, 0, 0, 0]"] enter_sleep_at_most_EM3 [of "[0, 0, 0, 2, 0]"]
    enter_sleep_at_most_EM3 [of "[0, 0, 1, 1, 0]"] enter_sleep_at_most_EM3 [of "[0, 1, 0, 0, 0]"]
    enter_sleep_at_most_EM3 [of "[0, 0, 0, 0, 3]"]
  by (simp add: MAX_ENERGY_MODES_def EM0_def EM1_def EM2_def EM3_def nth_Cons')

section \<open>Bus transaction engine\<close>

lemmas i2c_states =
  handshake_def measure_cmd_def confirm_cmd_def RX_MS_byte_def RX_LS_byte_def end_comm_def

text \<open>
  What a transaction without a fault does to the state, whatever the destination word
  held before: the received bytes are OR-ed into it, the event posted is the static
  \<open>event\<close>, and the callback passed to \<open>i2c_start\<close> is only stored.
\<close>

lemma i2c_read_transaction_result:
  assumes "unat I2C_EM_BLOCK < length (lowest_energy_mode s)"
    and "0 \<le> lowest_energy_mode s ! unat I2C_EM_BLOCK"
    and "lowest_energy_mode s ! unat I2C_EM_BLOCK < 4"
  shows "i2c_read_transaction slave_add cmd read_data si7021_read_cb high low s =
           Inr (s\<lparr>event_scheduled := event_scheduled s OR event s,
                  event_log := event_log s @ [event s],
                  i2c_sm := \<lparr>state = handshake, slave_address = slave_add, command = cmd,
                             data = (read_data OR push_bit 8 high) OR low, read = False,
                             callback = si7021_read_cb\<rparr>,
                  i2c_writes := i2c_writes s @
                    [CMD I2C_CMD_START, TXDATA (push_bit 1 slave_add OR 0), TXDATA cmd,
                     CMD I2C_CMD_START, TXDATA (push_bit 1 slave_add OR 1),
                     CMD I2C_CMD_ACK, CMD I2C_CMD_NACK, CMD I2C_CMD_STOP]\<rparr>)"
  using assms
  by (simp add: i2c_read_transaction_def i2c_start_def and_then_def sleep_block_mode_def
      sleep_unblock_mode_def I2C0_IRQHandler_def i2c_ack_def i2c_rxdatav_def i2c_mstop_def
      i2c_states Let_def post_event_def add_scheduled_event_def list_update_same_conv)

text \<open>
  Of the pairs of a state and an interrupt condition that are no legal transition of the
  table of section 4.3, every one other than an acknowledge in \<open>RX_MS_byte\<close> makes the
  interrupt handler fail its assertion, also when the state is none of the six of the
  enumeration. An acknowledge in \<open>RX_MS_byte\<close> returns with the state as it was.
\<close>

lemma i2c_other_violations_are_fatal:
  "(\<not> spec_4_3_legal (state (i2c_sm s)) c \<and> \<not> (state (i2c_sm s) = RX_MS_byte \<and> c = I2C_IF_ACK)
      \<longrightarrow> I2C0_IRQHandler {c} rxdata s = Inl EFM_ASSERT_failed) \<and>
   (state (i2c_sm s) = RX_MS_byte \<longrightarrow> I2C0_IRQHandler {I2C_IF_ACK} rxdata s = Inr s)"
  by (cases c)
    (simp_all add: spec_4_3_legal_def I2C0_IRQHandler_def and_then_def i2c_ack_def i2c_nack_def
      i2c_rxdatav_def i2c_mstop_def i2c_states Let_def)

text \<open>
  C2. The claim: every pair of a state and an interrupt condition that is no legal
  transition of the table of section 4.3 is a fatal assertion, in particular an
  acknowledge in the state receive-high-byte (\<open>RX_MS_byte\<close>). The comment of \<open>i2c_ack\<close>
  says the same of an acknowledge in a state that does not expect one, and every other
  illegal case of the four routines asserts; the case \<open>RX_MS_byte\<close> of \<open>i2c_ack\<close> is
  empty. After \<open>i2c_start\<close> and three acknowledges the engine is in \<open>RX_MS_byte\<close>; a
  fourth acknowledge, which the table does not allow, returns without a fault and leaves
  the whole state as it was.
\<close>

theorem i2c_ack_in_RX_MS_byte_ignored:
  "\<not> spec_4_3_legal RX_MS_byte I2C_IF_ACK \<and>
   \<not> isl (and_then (i2c_start 0x40 0xF3 0 True 0x08 mcu_reset)
            (i2c_interrupts [({I2C_IF_ACK}, 0), ({I2C_IF_ACK}, 0), ({I2C_IF_ACK}, 0)])) \<and>
   state (i2c_sm (projr (and_then (i2c_start 0x40 0xF3 0 True 0x08 mcu_reset)
            (i2c_interrupts [({I2C_IF_ACK}, 0), ({I2C_IF_ACK}, 0), ({I2C_IF_ACK}, 0)])))) = RX_MS_byte \<and>
   and_then (i2c_start 0x40 0xF3 0 True 0x08 mcu_reset)
     (i2c_interrupts [({I2C_IF_ACK}, 0), ({I2C_IF_ACK}, 0), ({I2C_IF_ACK}, 0), ({I2C_IF_ACK}, 0)])
   = and_then (i2c_start 0x40 0xF3 0 True 0x08 mcu_reset)
       (i2c_interrupts [({I2C_IF_ACK}, 0), ({I2C_IF_ACK}, 0), ({I2C_IF_ACK}, 0)])"
  by code_simp

text \<open>
  C4. The claim: on the stop condition in the state \<open>end_comm\<close> the engine posts the
  event that was passed to \<open>i2c_start\<close>. \<open>i2c_mstop\<close> posts the static \<open>event\<close>, which
  \<open>i2c_open\<close> sets; the argument of \<open>i2c_start\<close> is stored in \<^verbatim>\<open>i2c_sm.callback\<close> and
  never read. With \<open>event = 0x08\<close> and a transaction started with the event \<open>0x10\<close>, the
  transaction ends without a fault, the state is back at \<open>handshake\<close>, the block of
  \<open>I2C_EM_BLOCK\<close> is released, and the one event posted is \<open>0x08\<close>.
\<close>

theorem i2c_mstop_posts_event_of_i2c_open:
  "\<not> isl (i2c_read_transaction 0x40 0xF3 0 0x10 0x12 0x34 (mcu_reset\<lparr>event := 0x08\<rparr>)) \<and>
   state (i2c_sm (projr (i2c_read_transaction 0x40 0xF3 0 0x10 0x12 0x34 (mcu_reset\<lparr>event := 0x08\<rparr>))))
     = handshake \<and>
   lowest_energy_mode (projr (i2c_read_transaction 0x40 0xF3 0 0x10 0x12 0x34 (mcu_reset\<lparr>event := 0x08\<rparr>)))
     = lowest_energy_mode mcu_reset \<and>
   callback (i2c_sm (projr (i2c_read_transaction 0x40 0xF3 0 0x10 0x12 0x34 (mcu_reset\<lparr>event := 0x08\<rparr>))))
     = 0x10 \<and>
   event_log (projr (i2c_read_transaction 0x40 0xF3 0 0x10 0x12 0x34 (mcu_reset\<lparr>event := 0x08\<rparr>)))
     = [0x08] \<and>
   event_scheduled (projr (i2c_read_transaction 0x40 0xF3 0 0x10 0x12 0x34 (mcu_reset\<lparr>event := 0x08\<rparr>)))
     = 0x08"
  by code_simp

text \<open>
  C5. The claim: after a transaction the destination word is \<open>(high << 8) | low\<close>,
  whatever it held before. \<open>i2c_rxdatav\<close> ORs both bytes into the word and nothing clears
  it. The address is sent as \<open>(address << 1) | direction\<close>, as claimed: \<open>0x80\<close> for the
  write and \<open>0x81\<close> for the read of the device \<open>0x40\<close>. With \<open>0x6000\<close> in the destination
  word (an earlier reading) and the bytes \<open>0x12\<close>, \<open>0x34\<close> received, the word ends as
  \<open>0x7234\<close>, not \<open>0x1234\<close>.
\<close>

theorem i2c_rxdatav_keeps_old_bits:
  "\<not> isl (i2c_read_transaction 0x40 0xF3 0x6000 0x08 0x12 0x34 (mcu_reset\<lparr>event := 0x08\<rparr>)) \<and>
   i2c_writes (projr (i2c_read_transaction 0x40 0xF3 0x6000 0x08 0x12 0x34 (mcu_reset\<lparr>event := 0x08\<rparr>)))
     = [CMD I2C_CMD_START, TXDATA 0x80, TXDATA 0xF3, CMD I2C_CMD_START, TXDATA 0x81,
        CMD I2C_CMD_ACK, CMD I2C_CMD_NACK, CMD I2C_CMD_STOP] \<and>
   data (i2c_sm (projr (i2c_read_transaction 0x40 0xF3 0x6000 0x08 0x12 0x34 (mcu_reset\<lparr>event := 0x08\<rparr>))))
     = 0x7234 \<and>
   push_bit 8 (0x12 :: u32) OR 0x34 = 0x1234"
  by code_simp

section \<open>Serial framing engine\<close>

lemma list_update_Cons_numeral: "(x # xs)[numeral v := y] = x # xs[numeral v - 1 := y]"
  by (simp add: numeral_eq_Suc)

lemma first_eight:
  assumes "8 \<le> length xs"
  shows "\<exists>x0 x1 x2 x3 x4 x5 x6 x7 rest. xs = x0 # x1 # x2 # x3 # x4 # x5 # x6 # x7 # rest"
proof -
  have eight: "(8::nat) = Suc (Suc (Suc (Suc (Suc (Suc (Suc (Suc 0)))))))" by simp
  from assms show ?thesis unfolding eight by (auto simp: Suc_le_length_iff)
qed

text \<open>
  C7. The claim: on the transfer-complete interrupt in the completing state (\<open>stop\<close>) the
  transmit state machine returns to its idle state (\<open>start\<close>). \<open>leuart_txc\<close> assigns
  \<open>stop\<close> again. A transmission of the one byte \<^verbatim>\<open>A\<close>: \<open>leuart_start\<close>, one TXBL interrupt,
  one TXC interrupt. At the end the TXC interrupt is disabled, the busy flag is clear, the
  block of \<open>LEUART_TX_EM\<close> is released and the event \<open>0x20\<close> is posted, as claimed; the
  state is \<open>stop\<close>, which is not \<open>start\<close>.
\<close>

theorem leuart_txc_stays_in_stop:
  "\<not> isl (and_then (leuart_start (ascii ''A'') (mcu_reset\<lparr>leuart0_tx_done_cb := 0x20\<rparr>))
            (leuart_interrupts [({LEUART_TXBL}, 0), ({LEUART_TXC}, 0)])) \<and>
   leuart_txdata (projr (and_then (leuart_start (ascii ''A'') (mcu_reset\<lparr>leuart0_tx_done_cb := 0x20\<rparr>))
            (leuart_interrupts [({LEUART_TXBL}, 0), ({LEUART_TXC}, 0)]))) = ascii ''A'' \<and>
   LEUART_TXC \<notin> leuart_IEN (projr (and_then (leuart_start (ascii ''A'') (mcu_reset\<lparr>leuart0_tx_done_cb := 0x20\<rparr>))
            (leuart_interrupts [({LEUART_TXBL}, 0), ({LEUART_TXC}, 0)]))) \<and>
   \<not> tx_busy (tx_leuart_sm (projr (and_then (leuart_start (ascii ''A'') (mcu_reset\<lparr>leuart0_tx_done_cb := 0x20\<rparr>))
            (leuart_interrupts [({LEUART_TXBL}, 0), ({LEUART_TXC}, 0)])))) \<and>
   lowest_energy_mode (projr (and_then (leuart_start (ascii ''A'') (mcu_reset\<lparr>leuart0_tx_done_cb := 0x20\<rparr>))
            (leuart_interrupts [({LEUART_TXBL}, 0), ({LEUART_TXC}, 0)]))) = lowest_energy_mode mcu_reset \<and>
   event_log (projr (and_then (leuart_start (ascii ''A'') (mcu_reset\<lparr>leuart0_tx_done_cb := 0x20\<rparr>))
            (leuart_interrupts [({LEUART_TXBL}, 0), ({LEUART_TXC}, 0)]))) = [0x20] \<and>
   event_scheduled (projr (and_then (leuart_start (ascii ''A'') (mcu_reset\<lparr>leuart0_tx_done_cb := 0x20\<rparr>))
            (leuart_interrupts [({LEUART_TXBL}, 0), ({LEUART_TXC}, 0)]))) = 0x20 \<and>
   tx_state (tx_leuart_sm (projr (and_then (leuart_start (ascii ''A'') (mcu_reset\<lparr>leuart0_tx_done_cb := 0x20\<rparr>))
            (leuart_interrupts [({LEUART_TXBL}, 0), ({LEUART_TXC}, 0)])))) = stop \<and>
   stop \<noteq> start"
  by code_simp

text \<open>
  C8. The receive state machine is idle: in the state \<open>RXstart\<close>, with the start-frame
  interrupt enabled and the byte and signal-frame interrupts disabled, as \<open>leuart_open\<close>
  and \<open>leuart_sigf\<close> leave them. The frames \<^verbatim>\<open>a # H e l l o ! d e f\<close> then arrive one by
  one, each as its events. The run returns, the receive buffer holds the NUL-terminated
  string \<^verbatim>\<open>#Hello!\<close> whatever it held before, the receive event is posted exactly once
  (one call of \<open>add_scheduled_event\<close>, which sets the bits of \<open>leuart_rx_cb\<close> in the event
  mask and changes no other bit), and the machine is idle again. The leading \<^verbatim>\<open>a\<close> changes nothing at all, and the
  trailing \<^verbatim>\<open>def\<close> change nothing: the state after the whole input is the state after
  \<^verbatim>\<open>a#Hello!\<close>.
\<close>

theorem leuart_rx_hello_scenario:
  assumes "rx_state (rx_leuart_sm s) = RXstart"
    and "LEUART_STARTF \<in> leuart_IEN s"
    and "LEUART_RXDATAV \<notin> leuart_IEN s"
    and "LEUART_SIGF \<notin> leuart_IEN s"
    and "length (rx_str (rx_leuart_sm s)) = 64"
  shows "\<exists>s'. leuart_interrupts (map leuart_frame_event (ascii ''a#Hello!def'')) s = Inr s' \<and>
              c_string (rx_str (rx_leuart_sm s')) = ascii ''#Hello!'' \<and>
              event_log s' = event_log s @ [leuart_rx_cb s] \<and>
              event_scheduled s' = event_scheduled s OR leuart_rx_cb s \<and>
              rx_state (rx_leuart_sm s') = RXstart \<and>
              leuart_interrupts (map leuart_frame_event (ascii ''a'')) s = Inr s \<and>
              leuart_interrupts (map leuart_frame_event (ascii ''a#Hello!'')) s = Inr s'"
proof -
  from assms(5) have "8 \<le> length (rx_str (rx_leuart_sm s))" by simp
  from first_eight [OF this] obtain x0 x1 x2 x3 x4 x5 x6 x7 rest
    where buffer: "rx_str (rx_leuart_sm s) = x0 # x1 # x2 # x3 # x4 # x5 # x6 # x7 # rest"
    by blast
  from assms(1-4) buffer show ?thesis
    by (simp add: ascii_def leuart_frame_event_def LEUART0_IRQHandler_def
        and_then_def STARTFRAME_def SIGFRAME_def leuart_startf_def leuart_rxdatav_def
        leuart_sigf_def RXstart_def RXdata_def decode_def Let_def post_event_def c_string_def
        add_scheduled_event_def list_update_Cons_numeral)
qed

theorem leuart_rx_hello_scenario_witness:
  "c_string (rx_str (rx_leuart_sm (projr (leuart_interrupts (map leuart_frame_event (ascii ''a#Hello!def''))
     (mcu_reset\<lparr>leuart_IEN := {LEUART_STARTF}, leuart_rxblock := True, leuart_rx_cb := 0x40\<rparr>)))))
     = ascii ''#Hello!'' \<and>
   event_log (projr (leuart_interrupts (map leuart_frame_event (ascii ''a#Hello!def''))
     (mcu_reset\<lparr>leuart_IEN := {LEUART_STARTF}, leuart_rxblock := True, leuart_rx_cb := 0x40\<rparr>)))
     = [0x40] \<and>
   event_scheduled (projr (leuart_interrupts (map leuart_frame_event (ascii ''a#Hello!def''))
     (mcu_reset\<lparr>leuart_IEN := {LEUART_STARTF}, leuart_rxblock := True, leuart_rx_cb := 0x40\<rparr>)))
     = 0x40"
proof -
  let ?s = "mcu_reset\<lparr>leuart_IEN := {LEUART_STARTF}, leuart_rxblock := True, leuart_rx_cb := 0x40\<rparr>"
  have idle: "rx_state (rx_leuart_sm ?s) = RXstart" "LEUART_STARTF \<in> leuart_IEN ?s"
    "LEUART_RXDATAV \<notin> leuart_IEN ?s" "LEUART_SIGF \<notin> leuart_IEN ?s"
    "length (rx_str (rx_leuart_sm ?s)) = 64"
    by (simp_all add: mcu_reset_def RXstart_def)
  have log: "event_log ?s = []" "leuart_rx_cb ?s = 0x40" "event_scheduled ?s = 0"
    by (simp_all add: mcu_reset_def)
  from leuart_rx_hello_scenario [OF idle] obtain s'
    where "leuart_interrupts (map leuart_frame_event (ascii ''a#Hello!def'')) ?s = Inr s'"
      and "c_string (rx_str (rx_leuart_sm s')) = ascii ''#Hello!''"
      and "event_log s' = event_log ?s @ [leuart_rx_cb ?s]"
      and "event_scheduled s' = event_scheduled ?s OR leuart_rx_cb ?s"
    by blast
  with log show ?thesis by simp
qed

section \<open>Ring buffer\<close>

subsection \<open>Index arithmetic\<close>

lemma unat_and_63: "unat ((x::u32) AND 63) = unat x mod 64"
proof -
  have m: "(63::nat) = mask 6" by (simp add: mask_eq_exp_minus_1)
  have "unat (x AND 63) = unat x AND 63" by (simp add: unsigned_and_eq)
  also have "\<dots> = take_bit 6 (unat x)" unfolding m by (simp add: take_bit_eq_mask)
  also have "\<dots> = unat x mod 64" by (simp add: take_bit_eq_mod)
  finally show ?thesis .
qed

lemma mod_64_shift_le: "r \<le> w \<Longrightarrow> (w - r) mod 64 = (w + 64 - r) mod (64::nat)"
proof -
  assume "r \<le> w"
  then have e: "w + 64 - r = (w - r) + 64" by arith
  show ?thesis by (simp only: e mod_add_self2)
qed

lemma mod_64_shift_gt: "w < r \<Longrightarrow> r < 64 \<Longrightarrow> (4294967296 + w - r) mod 64 = (w + 64 - r) mod (64::nat)"
proof -
  assume "w < r" "r < 64"
  then have e: "4294967296 + w - r = (w + 64 - r) + 67108863 * 64" by arith
  show ?thesis by (simp only: e mod_mult_self1)
qed

lemma unat_diff_and_63: 
  assumes "unat (r::u32) < 64" "unat (w::u32) < 64" 
  shows "unat ((w - r) AND 63) = (unat w + 64 - unat r) mod 64"
proof (cases "unat r \<le> unat w")
  case True
  then have a: "unat (w - r) = unat w - unat r" by (simp add: unat_sub_if')
  show ?thesis unfolding unat_and_63 a by (rule mod_64_shift_le [OF True])
next
  case False
  then have a: "unat (w - r) = 4294967296 + unat w - unat r" by (simp add: unat_sub_if')
  from False have lt: "unat w < unat r" by simp
  show ?thesis unfolding unat_and_63 a by (rule mod_64_shift_gt [OF lt assms(1)])
qed
subsection \<open>The loops of push and pop\<close>

lemma unat_ucast_u8: "unat (y::u32) \<le> 64 \<Longrightarrow> unat (ucast y :: u8) = unat y"
  by (simp add: unsigned_ucast_eq take_bit_eq_mod)

lemma ble_circ_space_unat: 
  assumes "cbuf_ok b" 
  shows "unat (ble_circ_space b) = 64 - (unat (write_ptr b) + 64 - unat (read_ptr b)) mod 64"
proof -
  define X where "X = (write_ptr b - read_ptr b) AND 63"
  define m where "m = (unat (write_ptr b) + 64 - unat (read_ptr b)) mod 64"
  have X: "unat X = m" using assms unfolding X_def m_def by (simp add: unat_diff_and_63 cbuf_ok_def CSIZE_def)
  have m: "m < 64" unfolding m_def by simp
  have sp: "ble_circ_space b = ucast (64 - X)" using assms by (simp add: ble_circ_space_def cbuf_ok_def CSIZE_def X_def)
  have "unat (64 - X) = 64 - m" using X m by (simp add: unat_sub_if')
  then have "unat (ucast (64 - X) :: u8) = 64 - m" by (simp add: unat_ucast_u8)
  with sp show ?thesis by (simp add: m_def)
qed

lemma wrt_step:
  assumes "cbuf_ok b"
  shows "cbuf_ok (update_circ_wrtindex 1 (b\<lparr>cbuf := (cbuf b)[unat (write_ptr b) := c]\<rparr>))"
    and "unat (write_ptr (update_circ_wrtindex 1 (b\<lparr>cbuf := (cbuf b)[unat (write_ptr b) := c]\<rparr>))) = (unat (write_ptr b) + 1) mod 64"
  using assms by (simp_all add: cbuf_ok_def update_circ_wrtindex_def CSIZE_def unat_and_63 unat_word_ariths)

lemma push_loop_fields:
  "size_mask (ble_circ_push_loop cs b) = size_mask b \<and> buf_size (ble_circ_push_loop cs b) = buf_size b
   \<and> read_ptr (ble_circ_push_loop cs b) = read_ptr b \<and> length (cbuf (ble_circ_push_loop cs b)) = length (cbuf b)"
  by (induction cs arbitrary: b) (simp_all add: update_circ_wrtindex_def)

lemma push_loop_write_ptr:
  "cbuf_ok b \<Longrightarrow> cbuf_ok (ble_circ_push_loop cs b) \<and> unat (write_ptr (ble_circ_push_loop cs b)) = (unat (write_ptr b) + length cs) mod 64"
proof (induction cs arbitrary: b)
  case Nil
  then show ?case by (simp add: cbuf_ok_def CSIZE_def)
next
  case (Cons c cs)
  let ?b1 = "update_circ_wrtindex 1 (b\<lparr>cbuf := (cbuf b)[unat (write_ptr b) := c]\<rparr>)"
  from Cons.prems have ok1: "cbuf_ok ?b1" and w1: "unat (write_ptr ?b1) = (unat (write_ptr b) + 1) mod 64"
    by (rule wrt_step)+
  from Cons.IH [OF ok1] w1 show ?case by (simp add: mod_add_left_eq)
qed

lemma push_loop_frame:
  "cbuf_ok b \<Longrightarrow> \<forall>j<length cs. (unat (write_ptr b) + j) mod 64 \<noteq> k \<Longrightarrow> cbuf (ble_circ_push_loop cs b) ! k = cbuf b ! k"
proof (induction cs arbitrary: b)
  case Nil
  then show ?case by simp
next
  case (Cons c cs)
  let ?b1 = "update_circ_wrtindex 1 (b\<lparr>cbuf := (cbuf b)[unat (write_ptr b) := c]\<rparr>)"
  from Cons.prems(1) have ok1: "cbuf_ok ?b1" and w1: "unat (write_ptr ?b1) = (unat (write_ptr b) + 1) mod 64"
    by (rule wrt_step)+
  have w: "unat (write_ptr b) < 64" using Cons.prems(1) by (simp add: cbuf_ok_def CSIZE_def)
  have "\<forall>j<length cs. (unat (write_ptr ?b1) + j) mod 64 \<noteq> k"
  proof (intro allI impI)
    fix j assume "j < length cs"
    then have "(unat (write_ptr b) + Suc j) mod 64 \<noteq> k" using Cons.prems(2) by auto
    then show "(unat (write_ptr ?b1) + j) mod 64 \<noteq> k" by (simp add: w1 mod_add_left_eq)
  qed
  from Cons.IH [OF ok1 this] have "cbuf (ble_circ_push_loop (c # cs) b) ! k = cbuf ?b1 ! k" by simp
  also have "\<dots> = (cbuf b)[unat (write_ptr b) := c] ! k" by (simp add: update_circ_wrtindex_def)
  also have "\<dots> = cbuf b ! k" using Cons.prems(2) w by (auto simp: nth_list_update)
  finally show ?case .
qed



lemma mod_64_no_wrap: "w < 64 \<Longrightarrow> j < 63 \<Longrightarrow> ((w + 1) mod 64 + j) mod 64 \<noteq> (w::nat)"
proof -
  assume a: "w < 64" "j < 63"
  have "((w + 1) mod 64 + j) mod 64 = (w + (1 + j)) mod 64" by (simp add: mod_add_left_eq add.assoc)
  also have "\<dots> \<noteq> w" using a by (simp add: mod_if) arith
  finally show ?thesis .
qed

lemma push_pop_loop:
  "cbuf_ok b \<Longrightarrow> length cs \<le> 64 \<Longrightarrow>
   ble_circ_pop_loop (length cs) ((ble_circ_push_loop cs b)\<lparr>read_ptr := write_ptr b\<rparr>)
     = (cs, (ble_circ_push_loop cs b)\<lparr>read_ptr := write_ptr (ble_circ_push_loop cs b)\<rparr>)"
proof (induction cs arbitrary: b)
  case Nil
  then show ?case by simp
next
  case (Cons c cs)
  let ?b1 = "update_circ_wrtindex 1 (b\<lparr>cbuf := (cbuf b)[unat (write_ptr b) := c]\<rparr>)"
  let ?B = "ble_circ_push_loop cs ?b1"
  from Cons.prems(1) have ok1: "cbuf_ok ?b1" and w1: "unat (write_ptr ?b1) = (unat (write_ptr b) + 1) mod 64"
    by (rule wrt_step)+
  have w: "unat (write_ptr b) < 64" and len: "length (cbuf b) = 64" and msk: "size_mask b = 63"
    using Cons.prems(1) by (simp_all add: cbuf_ok_def CSIZE_def)
  have "\<forall>j<length cs. (unat (write_ptr ?b1) + j) mod 64 \<noteq> unat (write_ptr b)"
  proof (intro allI impI)
    fix j assume "j < length cs"
    with Cons.prems(2) have "j < 63" by simp
    with w show "(unat (write_ptr ?b1) + j) mod 64 \<noteq> unat (write_ptr b)"
      unfolding w1 using mod_64_no_wrap by simp
  qed
  from push_loop_frame [OF ok1 this]
  have first: "cbuf ?B ! unat (write_ptr b) = c"
    using w len by (simp add: update_circ_wrtindex_def)
  have msk': "size_mask ?B = 63" using push_loop_fields [of cs ?b1] msk by (simp add: update_circ_wrtindex_def)
  have next_read: "update_circ_readtindex 1 (?B\<lparr>read_ptr := write_ptr b\<rparr>) = ?B\<lparr>read_ptr := write_ptr ?b1\<rparr>"
    using msk msk' by (simp add: update_circ_readtindex_def update_circ_wrtindex_def)
  from Cons.prems(2) have "length cs \<le> 64" by simp
  from Cons.IH [OF ok1 this] have IH: "ble_circ_pop_loop (length cs) (?B\<lparr>read_ptr := write_ptr ?b1\<rparr>) = (cs, ?B\<lparr>read_ptr := write_ptr ?B\<rparr>)" .
  have "ble_circ_pop_loop (length (c # cs)) ((ble_circ_push_loop (c # cs) b)\<lparr>read_ptr := write_ptr b\<rparr>)
     = ble_circ_pop_loop (Suc (length cs)) (?B\<lparr>read_ptr := write_ptr b\<rparr>)" by simp
  also have "\<dots> = (c # cs, ?B\<lparr>read_ptr := write_ptr ?B\<rparr>)"
    unfolding ble_circ_pop_loop.simps next_read IH using first by simp
  finally show ?case by simp
qed



lemma takeWhile_no_nul: "(0::u8) \<notin> set M \<Longrightarrow> takeWhile (\<lambda>c. c \<noteq> 0) M = M"
  by (induction M) auto

lemma strlen_no_nul: "0 \<notin> set M \<Longrightarrow> strlen M = length M \<and> take (strlen M) M = M"
  by (simp add: strlen_def takeWhile_no_nul)

lemma strlen_terminated: "0 \<notin> set M \<Longrightarrow> strlen (M @ [0]) = length M"
  by (induction M) (auto simp: strlen_def)

lemma mod_64_offset: "w < 64 \<Longrightarrow> m < 64 \<Longrightarrow> ((w + m) mod 64 + 64 - w) mod 64 = (m::nat)"
proof (cases "w + m < 64")
  case True
  assume "w < 64" "m < 64"
  with True show ?thesis by simp
next
  case False
  assume a: "w < 64" "m < 64"
  with False have "(w + m) mod 64 = w + m - 64" by (simp add: mod_if)
  with False a show ?thesis by simp
qed

lemma header_word:
  assumes "n < 63"
  shows "(of_nat (n + 1) :: u32) \<noteq> 0" and "unat ((of_nat (n + 1) :: u32) - 1) = n"
    and "unat (of_nat (n + 1) :: u32) = n + 1"
proof -
  have m: "(n + 1) mod 4294967296 = n + 1" "n mod 4294967296 = n" using assms by simp_all
  show u: "unat (of_nat (n + 1) :: u32) = n + 1" unfolding unat_of_nat using m by simp
  then show "(of_nat (n + 1) :: u32) \<noteq> 0" by (metis Suc_eq_plus1 nat.distinct(1) unat_0)
  have "(of_nat (n + 1) :: u32) - 1 = of_nat n" by simp
  then show "unat ((of_nat (n + 1) :: u32) - 1) = n" using m by (simp only: unat_of_nat) simp
qed

lemma header_ucast:
  assumes "n < 63"
  shows "(ucast (of_nat (n + 1) :: u8) :: u32) = of_nat (n + 1)"
proof -
  have "unat (ucast (of_nat (n + 1) :: u8) :: u32) = unat (of_nat (n + 1) :: u32)"
    using assms by (simp only: unsigned_ucast_eq unat_of_nat unsigned_of_nat) (simp add: take_bit_eq_mod)
  then show ?thesis by (simp only: word_unat_eq_iff)
qed

text \<open>
  C3. The ring buffer is empty (both pointers equal, in a buffer as \<open>ble_circ_init\<close>
  and the index updates leave it) and the transmitter is idle. For every message \<open>M\<close> of
  fewer than \<open>CSIZE - 1\<close> bytes, none of them NUL, \<open>ble_circ_push\<close> accepts \<open>M\<close>, and
  \<open>ble_circ_pop\<close> then reports that it popped something, delivers exactly the bytes of
  \<open>M\<close> followed by a NUL to its sink (the test array in test mode, the transmit buffer of
  the LEUART otherwise), and leaves the buffer empty. In the second mode \<open>leuart_start\<close>
  blocks \<open>LEUART_TX_EM\<close>, so that level must not be at the bound of
  \<open>sleep_block_mode\<close> already.
\<close>

theorem ble_circ_round_trip:
  assumes ok: "cbuf_ok (ble_cbuf s)"
    and empty: "read_ptr (ble_cbuf s) = write_ptr (ble_cbuf s)"
    and idle: "\<not> leuart_busy s"
    and nonul: "0 \<notin> set M"
    and len: "length M < CSIZE - 1"
    and res: "length (result_str s) = CSIZE"
    and txs: "length (tx_str (tx_leuart_sm s)) = 64"
    and em: "\<not> test \<longrightarrow> unat LEUART_TX_EM < length (lowest_energy_mode s) \<and>
                        lowest_energy_mode s ! unat LEUART_TX_EM < 4"
  shows "\<exists>s1 s2. ble_circ_push M s = Inr s1 \<and> ble_circ_pop test s1 = Inr (False, s2)
           \<and> take (length M + 1) (pop_sink test s2) = M @ [0]
           \<and> read_ptr (ble_cbuf s2) = write_ptr (ble_cbuf s2)
           \<and> unat (ble_circ_space (ble_cbuf s2)) = CSIZE"
proof -
  define b where "b = ble_cbuf s"
  define n where "n = length M"
  define h :: u8 where "h = of_nat (n + 1)"
  define B where "B = ble_circ_push_loop (h # M) b"
  define E where "E = B\<lparr>read_ptr := write_ptr B\<rparr>"
  have okb: "cbuf_ok b" using ok by (simp add: b_def)
  have n: "n < 63" using len by (simp add: CSIZE_def n_def)
  have w: "unat (write_ptr b) < 64" using okb by (simp add: cbuf_ok_def CSIZE_def)
  have sl: "strlen M = n" "take (strlen M) M = M" using strlen_no_nul [OF nonul] by (simp_all add: n_def)
  have sp0: "unat (ble_circ_space b) = 64" using ble_circ_space_unat [OF okb] empty by (simp add: b_def)
  have tk: "take n M = M" by (simp add: n_def)
  have push: "ble_circ_push M s = Inr (s\<lparr>ble_cbuf := B\<rparr>)"
    using n sp0 by (simp add: ble_circ_push_def Let_def sl(1) tk PACKET_HEADER_def B_def h_def flip: b_def)
  have okB: "cbuf_ok B" and wB: "unat (write_ptr B) = (unat (write_ptr b) + (n + 1)) mod 64"
    using push_loop_write_ptr [OF okb, of "h # M"] by (simp_all add: B_def n_def)
  have rB: "read_ptr B = write_ptr b" using push_loop_fields [of "h # M" b] empty by (simp add: B_def b_def)
  have "(unat (write_ptr B) + 64 - unat (read_ptr B)) mod 64 = n + 1"
    unfolding rB wB using mod_64_offset [of "unat (write_ptr b)" "n + 1"] n w by simp
  then have "unat (ble_circ_space B) = 63 - n" using ble_circ_space_unat [OF okB] by simp
  then have spB: "unat (ble_circ_space B) \<noteq> 64" by arith
  have Bself: "B\<lparr>read_ptr := write_ptr b\<rparr> = B" using rB by simp
  have "ble_circ_pop_loop (length (h # M)) (B\<lparr>read_ptr := write_ptr b\<rparr>) = (h # M, E)"
    unfolding B_def E_def using n by (intro push_pop_loop [OF okb]) (simp add: n_def)
  then have pl: "ble_circ_pop_loop (Suc n) B = (h # M, E)"
    unfolding Bself by (simp add: n_def)
  have hd: "cbuf B ! unat (read_ptr B) = h"
    and tl: "ble_circ_pop_loop n (update_circ_readtindex (of_nat PACKET_HEADER) B) = (M, E)"
    using pl by (simp_all add: Let_def PACKET_HEADER_def split: prod.splits)
  define H :: u32 where "H = of_nat (n + 1)"
  have hdr: "(ucast h :: u32) = H"
    unfolding h_def H_def using n by (rule header_ucast)
  have hdr0: "H \<noteq> 0" unfolding H_def by (rule header_word(1) [OF n])
  have hdr1: "unat (H - of_nat PACKET_HEADER) = n"
    unfolding PACKET_HEADER_def of_nat_1 H_def by (rule header_word(2) [OF n])
  have hdr2: "unat H = n + 1" unfolding H_def by (rule header_word(3) [OF n])
  define s1 where "s1 = s\<lparr>ble_cbuf := B\<rparr>"
  define s1' where "s1' = s\<lparr>ble_cbuf := E\<rparr>"
  have idle1: "\<not> leuart_busy s1" "\<not> leuart_busy s1'" using idle by (simp_all add: leuart_busy_def s1_def s1'_def)
  have okE: "cbuf_ok E" using okB by (simp add: cbuf_ok_def E_def)
  have spE: "unat (ble_circ_space E) = CSIZE" "read_ptr E = write_ptr E"
    using ble_circ_space_unat [OF okE] by (simp_all add: CSIZE_def E_def)
  have s1b: "ble_cbuf s1 = B" "result_str s1 = result_str s" by (simp_all add: s1_def)
  have popgen: "ble_circ_pop test s1 =
      (if test then Inr (False, s1'\<lparr>result_str := (M @ [0]) @ drop (n + 1) (result_str s)\<rparr>)
       else and_then (leuart_start (M @ [0]) s1') (\<lambda>s2. Inr (False, s2)))"
    using idle1 spB n res
    by (simp add: ble_circ_pop_def Let_def s1b hd hdr hdr0 hdr1 hdr2 tl CSIZE_def) (simp add: s1_def s1'_def)
  show ?thesis
  proof (cases test)
    case True
    with popgen have "ble_circ_pop test s1 = Inr (False, s1'\<lparr>result_str := (M @ [0]) @ drop (n + 1) (result_str s)\<rparr>)"
      by simp
    with push True spE show ?thesis by (simp add: pop_sink_def s1_def s1'_def n_def)
  next
    case False
    with em have t: "unat LEUART_TX_EM < length (lowest_energy_mode s1')" "lowest_energy_mode s1' ! unat LEUART_TX_EM < 4"
      by (simp_all add: s1'_def)
    have tx1: "length (tx_str (tx_leuart_sm s1')) = 64" using txs by (simp add: s1'_def)
    have sl0: "strlen (M @ [0]) = n" using strlen_terminated [OF nonul] by (simp add: n_def)
    obtain s2 where st: "leuart_start (M @ [0]) s1' = Inr s2"
      and s2: "tx_str (tx_leuart_sm s2) = M @ [0] @ drop (n + 1) (tx_str (tx_leuart_sm s))" "ble_cbuf s2 = E"
      using idle1(2) t tx1 n
      by (simp add: leuart_start_def Let_def sl0 and_then_def sleep_block_mode_def s1'_def n_def)
    from popgen False st have "ble_circ_pop test s1 = Inr (False, s2)" by (simp add: and_then_def)
    with push False spE s2 show ?thesis by (simp add: pop_sink_def s1_def n_def)
  qed
qed

theorem ble_circ_round_trip_witness:
  "take (length (ascii ''Hi'') + 1) (result_str (snd (projr (ble_circ_pop True (projr (ble_circ_push (ascii ''Hi'')
      (mcu_reset\<lparr>ble_cbuf := ble_circ_init (ble_cbuf mcu_reset)\<rparr>))))))) = ascii ''Hi'' @ [0] \<and>
   take (length (ascii ''Hi'') + 1) (tx_str (tx_leuart_sm (snd (projr (ble_circ_pop False (projr (ble_circ_push (ascii ''Hi'')
      (mcu_reset\<lparr>ble_cbuf := ble_circ_init (ble_cbuf mcu_reset)\<rparr>)))))))) = ascii ''Hi'' @ [0]"
proof -
  let ?s = "mcu_reset\<lparr>ble_cbuf := ble_circ_init (ble_cbuf mcu_reset)\<rparr>"
  have ok: "cbuf_ok (ble_cbuf ?s)"
    by (simp add: cbuf_ok_def ble_circ_init_def mcu_reset_def CSIZE_def)
  have empty: "read_ptr (ble_cbuf ?s) = write_ptr (ble_cbuf ?s)"
    by (simp add: ble_circ_init_def)
  have idle: "\<not> leuart_busy ?s" by (simp add: leuart_busy_def mcu_reset_def)
  have msg: "0 \<notin> set (ascii ''Hi'')" "length (ascii ''Hi'') < CSIZE - 1"
    by (simp_all add: ascii_def CSIZE_def)
  have arrays: "length (result_str ?s) = CSIZE" "length (tx_str (tx_leuart_sm ?s)) = 64"
    by (simp_all add: mcu_reset_def)
  have em: "\<not> False \<longrightarrow> unat LEUART_TX_EM < length (lowest_energy_mode ?s) \<and>
              lowest_energy_mode ?s ! unat LEUART_TX_EM < 4"
    by (simp add: mcu_reset_def LEUART_TX_EM_def EM3_def MAX_ENERGY_MODES_def)
  have em': "\<not> True \<longrightarrow> unat LEUART_TX_EM < length (lowest_energy_mode ?s) \<and>
              lowest_energy_mode ?s ! unat LEUART_TX_EM < 4"
    by simp
  from ble_circ_round_trip [OF ok empty idle msg arrays em']
  obtain s1 s2 where "ble_circ_push (ascii ''Hi'') ?s = Inr s1" "ble_circ_pop True s1 = Inr (False, s2)"
    "take (length (ascii ''Hi'') + 1) (pop_sink True s2) = ascii ''Hi'' @ [0]"
    by blast
  then have test_mode: "take (length (ascii ''Hi'') + 1) (result_str (snd (projr (ble_circ_pop True (projr (ble_circ_push (ascii ''Hi'') ?s))))))
      = ascii ''Hi'' @ [0]"
    by (simp add: pop_sink_def)
  from ble_circ_round_trip [OF ok empty idle msg arrays em]
  obtain s1 s2 where "ble_circ_push (ascii ''Hi'') ?s = Inr s1" "ble_circ_pop False s1 = Inr (False, s2)"
    "take (length (ascii ''Hi'') + 1) (pop_sink False s2) = ascii ''Hi'' @ [0]"
    by blast
  then have oper_mode: "take (length (ascii ''Hi'') + 1) (tx_str (tx_leuart_sm (snd (projr (ble_circ_pop False (projr (ble_circ_push (ascii ''Hi'') ?s)))))))
      = ascii ''Hi'' @ [0]"
    by (simp add: pop_sink_def)
  from test_mode oper_mode show ?thesis by blast
qed

text \<open>
  The guard of \<open>ble_circ_push\<close>: it fails its assertion if and only if the length of the
  message plus the header of one byte exceeds \<open>ble_circ_space\<close>, and it halts in no other
  way.
\<close>

lemma ble_circ_push_guard:
  "(isl (ble_circ_push M s) \<longleftrightarrow> unat (ble_circ_space (ble_cbuf s)) < strlen M + PACKET_HEADER) \<and>
   (ble_circ_push M s = Inl h \<longrightarrow> h = EFM_ASSERT_failed)"
  by (auto simp: ble_circ_push_def Let_def split: if_splits)

text \<open>
  C6. The claim: every message that \<open>ble_circ_push\<close> accepts and stores has length plus
  header at most \<open>CSIZE - 1\<close>. The guard compares with \<open>ble_circ_space\<close>, which is
  \<open>CSIZE = 64\<close> on an empty buffer, with \<open>>\<close>. On the empty buffer of \<open>ble_circ_init\<close> a
  message of 63 bytes, with its header 64 bytes, is therefore accepted. Its last byte
  moves the write pointer back onto the read pointer: \<open>ble_circ_space\<close> is 64 again as
  for an empty buffer, \<open>ble_circ_pop\<close> in either mode reports that there is nothing to
  pop and changes nothing, and the message is never delivered. A message of 62 bytes, the
  longest the claim allows, is popped.
\<close>

theorem ble_circ_push_accepts_CSIZE_bytes:
  "\<not> isl (ble_circ_push (replicate 63 0x41) (mcu_reset\<lparr>ble_cbuf := ble_circ_init (ble_cbuf mcu_reset)\<rparr>)) \<and>
   \<not> strlen (replicate 63 0x41) + PACKET_HEADER \<le> CSIZE - 1 \<and>
   read_ptr (ble_cbuf (projr (ble_circ_push (replicate 63 0x41)
       (mcu_reset\<lparr>ble_cbuf := ble_circ_init (ble_cbuf mcu_reset)\<rparr>))))
     = write_ptr (ble_cbuf (projr (ble_circ_push (replicate 63 0x41)
         (mcu_reset\<lparr>ble_cbuf := ble_circ_init (ble_cbuf mcu_reset)\<rparr>)))) \<and>
   unat (ble_circ_space (ble_cbuf (projr (ble_circ_push (replicate 63 0x41)
       (mcu_reset\<lparr>ble_cbuf := ble_circ_init (ble_cbuf mcu_reset)\<rparr>))))) = CSIZE \<and>
   ble_circ_pop True (projr (ble_circ_push (replicate 63 0x41)
       (mcu_reset\<lparr>ble_cbuf := ble_circ_init (ble_cbuf mcu_reset)\<rparr>)))
     = Inr (True, projr (ble_circ_push (replicate 63 0x41)
         (mcu_reset\<lparr>ble_cbuf := ble_circ_init (ble_cbuf mcu_reset)\<rparr>))) \<and>
   ble_circ_pop False (projr (ble_circ_push (replicate 63 0x41)
       (mcu_reset\<lparr>ble_cbuf := ble_circ_init (ble_cbuf mcu_reset)\<rparr>)))
     = Inr (True, projr (ble_circ_push (replicate 63 0x41)
         (mcu_reset\<lparr>ble_cbuf := ble_circ_init (ble_cbuf mcu_reset)\<rparr>))) \<and>
   fst (projr (ble_circ_pop True (projr (ble_circ_push (replicate 62 0x41)
       (mcu_reset\<lparr>ble_cbuf := ble_circ_init (ble_cbuf mcu_reset)\<rparr>))))) = False"
  by code_simp

end
